theory Spec2Isabelle
  imports Main "HOL-Library.Sublist"
begin

section \<open>Prompt assembly of the chain-of-thought completion agent\<close>

text \<open>
  A shallow embedding of \<^verbatim>\<open>CotCompletionAgentRunner\<close>
  (\<^verbatim>\<open>api/core/agent/cot_completion_agent_runner.py\<close>): its three methods
  \<^verbatim>\<open>_organize_instruction_prompt\<close>, \<^verbatim>\<open>_organize_historic_prompt\<close> and
  \<^verbatim>\<open>_organize_prompt_messages\<close>. Isabelle identifiers cannot start with an
  underscore, so the leading underscore of a Python name is dropped; otherwise the
  names are the source's. Python strings are modelled as \<^typ>\<open>string\<close>, whose
  characters are 8-bit.
\<close>

subsection \<open>Python string operations\<close>

text \<open>
  \<^verbatim>\<open>s.replace(old, new)\<close>: every occurrence of \<open>old\<close> is replaced, scanning from
  the left and continuing behind each replaced occurrence. For an empty \<open>old\<close> Python
  inserts \<open>new\<close> before every character and at the end.
\<close>

function replace :: "string \<Rightarrow> string \<Rightarrow> string \<Rightarrow> string" where
  "replace [] old new = (if old = [] then new else [])"
| "replace (c # cs) old new =
     (if old = [] then new @ concat (map (\<lambda>x. x # new) (c # cs))
      else if prefix old (c # cs) then new @ replace (drop (length old) (c # cs)) old new
      else c # replace cs old new)"
  by pat_completeness auto
termination
  by (relation "measure (\<lambda>(s, old, new). length s)") auto

text \<open>\<^verbatim>\<open>sep.join(xs)\<close>.\<close>

fun join :: "string \<Rightarrow> string list \<Rightarrow> string" where
  "join sep [] = []"
| "join sep [x] = x"
| "join sep (x # y # ys) = x @ sep @ join sep (y # ys)"

text \<open>
  An optional string inside an f-string: \<^verbatim>\<open>f"{v}"\<close> is \<^verbatim>\<open>str(v)\<close>, which is
  \<^verbatim>\<open>"None"\<close> for \<^verbatim>\<open>None\<close>. Its truth value in \<^verbatim>\<open>if v:\<close> is false for
  \<^verbatim>\<open>None\<close> and for the empty string.
\<close>

fun py_str :: "string option \<Rightarrow> string" where
  "py_str None = ''None''"
| "py_str (Some s) = s"

fun truthy :: "string option \<Rightarrow> bool" where
  "truthy None = False"
| "truthy (Some s) = (s \<noteq> [])"


subsection \<open>JSON values and \<^verbatim>\<open>json.dumps\<close>\<close>

text \<open>
  The values \<^verbatim>\<open>json.dumps\<close> is applied to, without floating-point numbers. A
  dictionary keeps its insertion order, so an object is an association list.
\<close>

datatype json =
    JNull
  | JBool bool
  | JInt int
  | JString string
  | JArray "json list"
  | JObject "(string \<times> json) list"

definition hex_digit :: "nat \<Rightarrow> char" where
  "hex_digit n = ''0123456789abcdef'' ! (n mod 16)"

text \<open>
  String escaping with \<^verbatim>\<open>ensure_ascii=True\<close>, the default: the double quote and
  the backslash are escaped, the usual control characters have short escapes, and
  every other character outside \<^verbatim>\<open>' '..'~'\<close> is written \<^verbatim>\<open>\u00XX\<close>.
\<close>

definition escape_char :: "char \<Rightarrow> string" where
  "escape_char c =
     (if c = CHR 0x22 then [CHR 0x5C, CHR 0x22]
      else if c = CHR 0x5C then [CHR 0x5C, CHR 0x5C]
      else if c = CHR 0x0A then [CHR 0x5C, CHR ''n'']
      else if c = CHR 0x0D then [CHR 0x5C, CHR ''r'']
      else if c = CHR 0x09 then [CHR 0x5C, CHR ''t'']
      else if c = CHR 0x08 then [CHR 0x5C, CHR ''b'']
      else if c = CHR 0x0C then [CHR 0x5C, CHR ''f'']
      else if of_char c < (0x20 :: nat) \<or> (0x7E :: nat) < of_char c
        then [CHR 0x5C, CHR ''u'', CHR ''0'', CHR ''0'',
              hex_digit (of_char c div 16), hex_digit (of_char c mod 16)]
      else [c])"

definition encode_basestring_ascii :: "string \<Rightarrow> string" where
  "encode_basestring_ascii s = [CHR 0x22] @ concat (map escape_char s) @ [CHR 0x22]"

function digits :: "nat \<Rightarrow> string" where
  "digits n = (if n < 10 then [hex_digit n] else digits (n div 10) @ [hex_digit (n mod 10)])"
  by pat_completeness auto
termination
  by (relation "measure id") auto

definition int_repr :: "int \<Rightarrow> string" where
  "int_repr i = (if i < 0 then ''-'' @ digits (nat (- i)) else digits (nat i))"

text \<open>The default separators of \<^verbatim>\<open>json.dumps\<close> are \<^verbatim>\<open>", "\<close> and \<^verbatim>\<open>": "\<close>.\<close>

fun json_dumps :: "json \<Rightarrow> string" where
  "json_dumps JNull = ''null''"
| "json_dumps (JBool b) = (if b then ''true'' else ''false'')"
| "json_dumps (JInt i) = int_repr i"
| "json_dumps (JString s) = encode_basestring_ascii s"
| "json_dumps (JArray xs) = ''['' @ join '', '' (map json_dumps xs) @ '']''"
| "json_dumps (JObject kvs) =
     ''{'' @ join '', ''
        (map (\<lambda>(k, v). encode_basestring_ascii k @ '': '' @ json_dumps v) kvs) @ ''}''"

subsection \<open>Data model\<close>

text \<open>
  A content part is a text part or a part of another kind (an image, say), which the
  renderers skip.
\<close>

datatype prompt_message_content =
    TextPromptMessageContent (data: string)
  | NonTextPromptMessageContent string

text \<open>
  The \<^verbatim>\<open>content\<close> of a message is \<^verbatim>\<open>None\<close>, a plain string, a sequence of
  parts, or one part that is not wrapped in a sequence; the source tells them apart
  with \<^verbatim>\<open>isinstance\<close>.
\<close>

datatype message_content =
    StrContent string
  | SeqContent "prompt_message_content list"
  | PartContent prompt_message_content

datatype prompt_message =
    UserPromptMessage "message_content option"
  | AssistantPromptMessage "message_content option"
  | ToolPromptMessage "message_content option"
  | SystemPromptMessage "message_content option"

text \<open>
  Modelled from the spec: \<^verbatim>\<open>PromptMessageTool\<close> is declared outside the source
  files at hand. A tool has a name, a description and a parameter schema, which is
  a JSON value.
\<close>

record prompt_message_tool =
  name :: string
  description :: string
  parameters :: json

text \<open>
  Modelled from the spec: \<^verbatim>\<open>jsonable_encoder\<close> is defined outside the source
  files at hand. The catalog becomes a JSON array with one object per tool, in
  catalog order, with the fields name, description and parameter schema in their
  plain JSON representation.
\<close>

definition tool_object :: "prompt_message_tool \<Rightarrow> json" where
  "tool_object tool =
     JObject [(''name'', JString (name tool)),
              (''description'', JString (description tool)),
              (''parameters'', parameters tool)]"

definition jsonable_encoder :: "prompt_message_tool list \<Rightarrow> json" where
  "jsonable_encoder tools = JArray (map tool_object tools)"

text \<open>
  Modelled from the spec: \<^verbatim>\<open>AgentScratchpadUnit\<close> is declared outside the source
  files at hand. A unit has a thought (a string), the optional strings
  \<^verbatim>\<open>action_str\<close>, \<^verbatim>\<open>observation\<close> and \<^verbatim>\<open>agent_response\<close>, and the derived
  predicate \<^verbatim>\<open>is_final()\<close>. The definition of the predicate is not available, so
  it is kept as a truth value of the unit, which leaves every combination of it with
  the other fields open.
\<close>

record agent_scratchpad_unit =
  agent_response :: "string option"
  thought :: string
  action_str :: "string option"
  observation :: "string option"
  is_final :: bool

record prompt_entity =
  first_prompt :: string

record agent_entity =
  prompt :: "prompt_entity option"

record app_config_entity =
  agent :: "agent_entity option"

text \<open>The attributes of the runner that the three methods read.\<close>

record runner =
  app_config :: app_config_entity
  instruction :: string
  prompt_messages_tools :: "prompt_message_tool list"
  history_prompt_messages :: "prompt_message list option"
  agent_scratchpad :: "agent_scratchpad_unit list option"
  query :: string

datatype error = ValueError string

subsection \<open>\<^verbatim>\<open>_organize_instruction_prompt\<close>\<close>

definition organize_instruction_prompt :: "runner \<Rightarrow> error + string" where
  "organize_instruction_prompt self =
     (case agent (app_config self) of
        None \<Rightarrow> Inl (ValueError ''Agent configuration is not set'')
      | Some agent_config \<Rightarrow>
          (case prompt agent_config of
             None \<Rightarrow> Inl (ValueError ''prompt entity is not set'')
           | Some prompt_entity \<Rightarrow>
               Inr (replace
                     (replace
                       (replace (first_prompt prompt_entity)
                          ''{{instruction}}'' (instruction self))
                       ''{{tools}}'' (json_dumps (jsonable_encoder (prompt_messages_tools self))))
                     ''{{tool_names}}'' (join '', '' (map name (prompt_messages_tools self))))))"

subsection \<open>\<^verbatim>\<open>_organize_historic_prompt\<close>\<close>

text \<open>The comprehension that keeps the data of the text parts.\<close>

fun text_data :: "prompt_message_content list \<Rightarrow> string list" where
  "text_data [] = []"
| "text_data (TextPromptMessageContent d # cs) = d # text_data cs"
| "text_data (NonTextPromptMessageContent x # cs) = text_data cs"

text \<open>
  The body of the loop, from the transcript so far to the transcript after one
  message. A \<^verbatim>\<open>continue\<close>, and a content that no branch matches, leave the
  transcript as it is.
\<close>

fun historic_step :: "string \<Rightarrow> prompt_message \<Rightarrow> string" where
  "historic_step historic_prompt (UserPromptMessage None) = historic_prompt"
| "historic_step historic_prompt (UserPromptMessage (Some (StrContent s))) =
     historic_prompt @ ''Question: '' @ s @ ''\<newline>\<newline>''"
| "historic_step historic_prompt (UserPromptMessage (Some (SeqContent ps))) =
     historic_prompt @ ''Question: '' @ join '' '' (text_data ps) @ ''\<newline>\<newline>''"
| "historic_step historic_prompt (UserPromptMessage (Some (PartContent p))) = historic_prompt"
| "historic_step historic_prompt (AssistantPromptMessage None) = historic_prompt"
| "historic_step historic_prompt (AssistantPromptMessage (Some (StrContent s))) =
     historic_prompt @ s @ ''\<newline>\<newline>''"
| "historic_step historic_prompt (AssistantPromptMessage (Some (SeqContent ps))) =
     historic_prompt @ join '' '' (text_data ps) @ ''\<newline>\<newline>''"
| "historic_step historic_prompt
       (AssistantPromptMessage (Some (PartContent (TextPromptMessageContent d)))) =
     historic_prompt @ d @ ''\<newline>\<newline>''"
| "historic_step historic_prompt
       (AssistantPromptMessage (Some (PartContent (NonTextPromptMessageContent x)))) =
     historic_prompt"
| "historic_step historic_prompt (ToolPromptMessage None) = historic_prompt"
| "historic_step historic_prompt (ToolPromptMessage (Some (StrContent s))) =
     historic_prompt @ ''Tool Response: '' @ s @ ''\<newline>\<newline>''"
| "historic_step historic_prompt
       (ToolPromptMessage (Some (PartContent (TextPromptMessageContent d)))) =
     historic_prompt @ ''Tool Response: '' @ d @ ''\<newline>\<newline>''"
| "historic_step historic_prompt
       (ToolPromptMessage (Some (PartContent (NonTextPromptMessageContent x)))) =
     historic_prompt"
| "historic_step historic_prompt (ToolPromptMessage (Some (SeqContent ps))) = historic_prompt"
| "historic_step historic_prompt (SystemPromptMessage c) = historic_prompt"

text \<open>
  The argument \<^verbatim>\<open>current_session_messages\<close> is not read.
  \<^verbatim>\<open>self.history_prompt_messages or []\<close> is the empty list for \<^verbatim>\<open>None\<close>.
\<close>

definition organize_historic_prompt :: "runner \<Rightarrow> prompt_message list option \<Rightarrow> string" where
  "organize_historic_prompt self current_session_messages =
     foldl historic_step []
       (case history_prompt_messages self of None \<Rightarrow> [] | Some ms \<Rightarrow> ms)"

subsection \<open>\<^verbatim>\<open>_organize_prompt_messages\<close>\<close>

text \<open>The body of the loop over the scratchpad.\<close>

definition scratchpad_step :: "string \<Rightarrow> agent_scratchpad_unit \<Rightarrow> string" where
  "scratchpad_step assistant_prompt unit =
     (if is_final unit
      then assistant_prompt @ ''Final Answer: '' @ py_str (agent_response unit)
      else
        (let p1 = assistant_prompt @ ''Thought: '' @ thought unit @ ''\<newline>\<newline>'';
             p2 = (if truthy (action_str unit)
                   then p1 @ ''Action: '' @ py_str (action_str unit) @ ''\<newline>\<newline>''
                   else p1);
             p3 = (if truthy (observation unit)
                   then p2 @ ''Observation: '' @ py_str (observation unit) @ ''\<newline>\<newline>''
                   else p2)
         in p3))"

text \<open>The scratchpad rendering: the value of \<^verbatim>\<open>assistant_prompt\<close> after the loop.\<close>

definition assistant_prompt_of :: "runner \<Rightarrow> string" where
  "assistant_prompt_of self =
     foldl scratchpad_step []
       (case agent_scratchpad self of None \<Rightarrow> [] | Some units \<Rightarrow> units)"

definition organize_prompt_messages :: "runner \<Rightarrow> error + prompt_message list" where
  "organize_prompt_messages self =
     (case organize_instruction_prompt self of
        Inl e \<Rightarrow> Inl e
      | Inr system_prompt \<Rightarrow>
          (let historic_prompt = organize_historic_prompt self None;
               assistant_prompt = assistant_prompt_of self;
               query_prompt = ''Question: '' @ query self
           in Inr [UserPromptMessage (Some (SeqContent [TextPromptMessageContent
                 (replace
                   (replace
                     (replace system_prompt ''{{historic_messages}}'' historic_prompt)
                     ''{{agent_scratchpad}}'' assistant_prompt)
                   ''{{query}}'' query_prompt)]))]))"

subsection \<open>The renderings as the specification words them\<close>

text \<open>The block that one message of the history contributes to the transcript.\<close>

fun message_block :: "prompt_message \<Rightarrow> string" where
  "message_block (UserPromptMessage (Some (StrContent s))) =
     ''Question: '' @ s @ ''\<newline>\<newline>''"
| "message_block (UserPromptMessage (Some (SeqContent ps))) =
     ''Question: '' @ join '' '' (map data (filter is_TextPromptMessageContent ps))
       @ ''\<newline>\<newline>''"
| "message_block (AssistantPromptMessage (Some (StrContent s))) = s @ ''\<newline>\<newline>''"
| "message_block (AssistantPromptMessage (Some (SeqContent ps))) =
     join '' '' (map data (filter is_TextPromptMessageContent ps)) @ ''\<newline>\<newline>''"
| "message_block (AssistantPromptMessage (Some (PartContent (TextPromptMessageContent d)))) =
     d @ ''\<newline>\<newline>''"
| "message_block (ToolPromptMessage (Some (StrContent s))) =
     ''Tool Response: '' @ s @ ''\<newline>\<newline>''"
| "message_block (ToolPromptMessage (Some (PartContent (TextPromptMessageContent d)))) =
     ''Tool Response: '' @ d @ ''\<newline>\<newline>''"
| "message_block m = []"

text \<open>What one scratchpad unit contributes to the scratchpad rendering.\<close>

definition unit_rendering :: "agent_scratchpad_unit \<Rightarrow> string" where
  "unit_rendering unit =
     (if is_final unit then ''Final Answer: '' @ py_str (agent_response unit)
      else ''Thought: '' @ thought unit @ ''\<newline>\<newline>''
         @ (case action_str unit of
              Some (a # as) \<Rightarrow> ''Action: '' @ (a # as) @ ''\<newline>\<newline>''
            | _ \<Rightarrow> [])
         @ (case observation unit of
              Some (b # bs) \<Rightarrow> ''Observation: '' @ (b # bs) @ ''\<newline>\<newline>''
            | _ \<Rightarrow> []))"

text \<open>
  The tool catalog as a JSON array: one object per tool, in catalog order, with the
  members name, description and parameters.
\<close>

definition quoted :: "string \<Rightarrow> string" where
  "quoted s = [CHR 0x22] @ s @ [CHR 0x22]"

definition tool_text :: "prompt_message_tool \<Rightarrow> string" where
  "tool_text tool =
     ''{'' @ quoted ''name'' @ '': '' @ json_dumps (JString (name tool))
       @ '', '' @ quoted ''description'' @ '': '' @ json_dumps (JString (description tool))
       @ '', '' @ quoted ''parameters'' @ '': '' @ json_dumps (parameters tool) @ ''}''"

definition catalog_json :: "prompt_message_tool list \<Rightarrow> string" where
  "catalog_json tools = ''['' @ join '', '' (map tool_text tools) @ '']''"

text \<open>
  Every placeholder token starts with two opening braces. A text that contains no two
  adjacent opening braces and does not end in one cannot hold the start of a token,
  whatever text follows it.
\<close>

fun no_open :: "string \<Rightarrow> bool" where
  "no_open [] = True"
| "no_open [c] = (c \<noteq> CHR ''{'')"
| "no_open (c # d # s) = ((c \<noteq> CHR ''{'' \<or> d \<noteq> CHR ''{'') \<and> no_open (d # s))"

subsection \<open>Example inputs\<close>

text \<open>A small runner in the shape of the fixture of the unit tests.\<close>

definition example_tools :: "prompt_message_tool list" where
  "example_tools =
     [\<lparr>name = ''calculator'', description = ''math'',
       parameters = JObject [(''type'', JString ''object'')]\<rparr>,
      \<lparr>name = ''weather'', description = ''forecast'', parameters = JObject []\<rparr>]"

definition example_history :: "prompt_message list" where
  "example_history =
     [UserPromptMessage (Some (SeqContent
        [TextPromptMessageContent ''What's the weather like?'',
         NonTextPromptMessageContent ''image'',
         TextPromptMessageContent ''And temperature too?''])),
      AssistantPromptMessage (Some (StrContent ''Let me check.'')),
      ToolPromptMessage (Some (StrContent ''The weather is sunny.''))]"

definition example_unit :: agent_scratchpad_unit where
  "example_unit =
     \<lparr>agent_response = Some ''Let me calculate that'',
      thought = ''I should use the calculator'',
      action_str = Some ''calculator(2+2)'',
      observation = Some ''4'',
      is_final = False\<rparr>"

definition example_final_unit :: agent_scratchpad_unit where
  "example_final_unit =
     \<lparr>agent_response = Some ''2+2 is 4'', thought = ''Done'',
      action_str = None, observation = None, is_final = True\<rparr>"


definition example_runner :: runner where
  "example_runner =
     \<lparr>app_config = \<lparr>agent = Some \<lparr>prompt = Some \<lparr>first_prompt =
        ''Do: {{instruction}} Tools: {{tools}} Names: {{tool_names}} History: {{historic_messages}}Now: {{agent_scratchpad}}{{query}}''\<rparr>\<rparr>\<rparr>,
      instruction = ''Help the user'',
      prompt_messages_tools = example_tools,
      history_prompt_messages = Some example_history,
      agent_scratchpad = Some [example_unit],
      query = ''What is 2+2?''\<rparr>"

section \<open>Properties\<close>

subsection \<open>Auxiliary facts\<close>

lemma text_data_filter: "text_data ps = map data (filter is_TextPromptMessageContent ps)"
  by (induction ps rule: text_data.induct) simp_all

lemma historic_step_block: "historic_step hp m = hp @ message_block m"
  by (cases "(hp, m)" rule: historic_step.cases) (simp_all add: text_data_filter)

lemma foldl_historic_step: "foldl historic_step hp ms = hp @ concat (map message_block ms)"
  by (induction ms arbitrary: hp) (simp_all add: historic_step_block)

lemma historic_prompt_of:
  "organize_historic_prompt (self\<lparr>history_prompt_messages := Some ms\<rparr>) cur
     = concat (map message_block ms)"
  by (simp add: organize_historic_prompt_def foldl_historic_step)

lemma scratchpad_step_rendering: "scratchpad_step ap unit = ap @ unit_rendering unit"
  by (cases "action_str unit"; cases "observation unit";
      cases "the (action_str unit)"; cases "the (observation unit)")
     (simp_all add: scratchpad_step_def unit_rendering_def Let_def)

lemma foldl_scratchpad_step:
  "foldl scratchpad_step ap units = ap @ concat (map unit_rendering units)"
  by (induction units arbitrary: ap) (simp_all add: scratchpad_step_rendering)

lemma assistant_prompt_of_units:
  "assistant_prompt_of (self\<lparr>agent_scratchpad := Some units\<rparr>) = concat (map unit_rendering units)"
  by (simp add: assistant_prompt_of_def foldl_scratchpad_step)

subsection \<open>Facts about \<^const>\<open>replace\<close>\<close>

lemma no_open_iff:
  "no_open s \<longleftrightarrow> \<not> sublist ''{{'' s \<and> (s = [] \<or> last s \<noteq> CHR ''{'')"
  by (induction s rule: no_open.induct) (auto simp: sublist_Cons_right)

lemma no_open_append: "no_open x \<Longrightarrow> no_open y \<Longrightarrow> no_open (x @ y)"
proof (induction x rule: no_open.induct)
  case (2 c)
  then show ?case by (cases y) simp_all
qed simp_all

lemma no_open_no_brace: "CHR ''{'' \<notin> set s \<Longrightarrow> no_open s"
  by (induction s rule: no_open.induct) auto

lemma replace_token: "old \<noteq> [] \<Longrightarrow> replace (old @ s) old new = new @ replace s old new"
  by (cases old) simp_all

lemma replace_skip:
  assumes "prefix ''{{'' old" and "no_open x"
  shows "replace (x @ s) old new = x @ replace s old new"
  using assms(2)
proof (induction x rule: no_open.induct)
  case 1
  show ?case by simp
next
  case (2 c)
  with assms(1) show ?case by (auto simp: prefix_def)
next
  case (3 c d r)
  with assms(1) show ?case by (auto simp: prefix_def)
qed


lemma skip_tools_instruction:
  "replace (''{{tools}}'' @ s) ''{{instruction}}'' new = ''{{tools}}'' @ replace s ''{{instruction}}'' new"
  by simp

lemma skip_tool_names_instruction:
  "replace (''{{tool_names}}'' @ s) ''{{instruction}}'' new
     = ''{{tool_names}}'' @ replace s ''{{instruction}}'' new"
  by simp

lemma skip_tool_names_tools:
  "replace (''{{tool_names}}'' @ s) ''{{tools}}'' new = ''{{tool_names}}'' @ replace s ''{{tools}}'' new"
  by simp


lemma replace_skip_token:
  assumes "prefix ''{{'' old" and "no_open x"
  shows "replace (x @ old @ s) old new = x @ new @ replace s old new"
proof -
  from assms(1) have "old \<noteq> []" by auto
  then show ?thesis
    using assms by (simp add: replace_skip replace_token)
qed

subsection \<open>The passes of the instruction renderer\<close>

lemma tool_text_eq: "json_dumps (tool_object tool) = tool_text tool"
  by (simp add: tool_object_def tool_text_def quoted_def encode_basestring_ascii_def
      escape_char_def)

lemma catalog_json_eq: "json_dumps (jsonable_encoder tools) = catalog_json tools"
proof -
  have "json_dumps \<circ> tool_object = tool_text"
    by (rule ext) (simp add: tool_text_eq)
  then show ?thesis
    by (simp add: jsonable_encoder_def catalog_json_def)
qed

lemma instruction_prompt_configured:
  assumes "agent (app_config self) = Some a" and "prompt a = Some p"
  shows "organize_instruction_prompt self =
     Inr (replace
           (replace
             (replace (first_prompt p) ''{{instruction}}'' (instruction self))
             ''{{tools}}'' (catalog_json (prompt_messages_tools self)))
           ''{{tool_names}}'' (join '', '' (map name (prompt_messages_tools self))))"
  using assms by (simp add: organize_instruction_prompt_def catalog_json_eq)


lemma three_passes_canonical:
  assumes P0: "no_open P0" and P1: "no_open P1" and P2: "no_open P2"
    and I: "no_open I" and J: "no_open J"
  shows "replace (replace (replace
            (P0 @ ''{{instruction}}'' @ P1 @ ''{{tools}}'' @ P2 @ ''{{tool_names}}'' @ P3)
            ''{{instruction}}'' I) ''{{tools}}'' J) ''{{tool_names}}'' N
     = P0 @ I @ P1 @ J @ P2 @ N
       @ replace (replace (replace P3 ''{{instruction}}'' I) ''{{tools}}'' J) ''{{tool_names}}'' N"
proof -
  let ?R1 = "replace P3 ''{{instruction}}'' I"
  let ?R2 = "replace ?R1 ''{{tools}}'' J"
  have a: "no_open (P0 @ I @ P1)"
    using P0 I P1 by (simp add: no_open_append)
  have b: "no_open (P0 @ I @ P1 @ J @ P2)"
    using P0 I P1 J P2 by (simp add: no_open_append)
  have "replace (P0 @ ''{{instruction}}'' @ P1 @ ''{{tools}}'' @ P2 @ ''{{tool_names}}'' @ P3)
          ''{{instruction}}'' I
      = P0 @ I @ replace (P1 @ ''{{tools}}'' @ P2 @ ''{{tool_names}}'' @ P3) ''{{instruction}}'' I"
    using P0 by (simp only: replace_skip_token prefix_code list.simps simp_thms)
  also have "replace (P1 @ ''{{tools}}'' @ P2 @ ''{{tool_names}}'' @ P3) ''{{instruction}}'' I
      = P1 @ ''{{tools}}'' @ replace (P2 @ ''{{tool_names}}'' @ P3) ''{{instruction}}'' I"
    using P1 by (simp only: replace_skip skip_tools_instruction prefix_code list.simps simp_thms)
  also have "replace (P2 @ ''{{tool_names}}'' @ P3) ''{{instruction}}'' I
      = P2 @ ''{{tool_names}}'' @ ?R1"
    using P2 by (simp only: replace_skip skip_tool_names_instruction prefix_code list.simps simp_thms)
  finally have pass1: "replace
        (P0 @ ''{{instruction}}'' @ P1 @ ''{{tools}}'' @ P2 @ ''{{tool_names}}'' @ P3)
        ''{{instruction}}'' I
      = (P0 @ I @ P1) @ ''{{tools}}'' @ P2 @ ''{{tool_names}}'' @ ?R1"
    by simp
  have "replace ((P0 @ I @ P1) @ ''{{tools}}'' @ P2 @ ''{{tool_names}}'' @ ?R1) ''{{tools}}'' J
      = (P0 @ I @ P1) @ J @ replace (P2 @ ''{{tool_names}}'' @ ?R1) ''{{tools}}'' J"
    using a by (simp only: replace_skip_token prefix_code list.simps simp_thms)
  also have "replace (P2 @ ''{{tool_names}}'' @ ?R1) ''{{tools}}'' J = P2 @ ''{{tool_names}}'' @ ?R2"
    using P2 by (simp only: replace_skip skip_tool_names_tools prefix_code list.simps simp_thms)
  finally have pass2: "replace ((P0 @ I @ P1) @ ''{{tools}}'' @ P2 @ ''{{tool_names}}'' @ ?R1)
        ''{{tools}}'' J
      = (P0 @ I @ P1 @ J @ P2) @ ''{{tool_names}}'' @ ?R2"
    by simp
  have pass3: "replace ((P0 @ I @ P1 @ J @ P2) @ ''{{tool_names}}'' @ ?R2) ''{{tool_names}}'' N
      = (P0 @ I @ P1 @ J @ P2) @ N @ replace ?R2 ''{{tool_names}}'' N"
    using b by (simp only: replace_skip_token prefix_code list.simps simp_thms)
  show ?thesis
    by (simp only: pass1 pass2 pass3) simp
qed








subsection \<open>The history transcript\<close>

text \<open>
  C7: \<^verbatim>\<open>_organize_historic_prompt\<close> returns the empty string when the message
  sequence is absent or empty, and otherwise the concatenation, in input order, of
  the blocks of the messages.
\<close>

theorem historic_prompt_concat:
  "organize_historic_prompt (self\<lparr>history_prompt_messages := None\<rparr>) cur = []
   \<and> organize_historic_prompt (self\<lparr>history_prompt_messages := Some []\<rparr>) cur = []
   \<and> organize_historic_prompt (self\<lparr>history_prompt_messages := Some ms\<rparr>) cur
       = concat (map message_block ms)"
  by (simp add: organize_historic_prompt_def foldl_historic_step)

text \<open>
  C6: in the history transcript a User message with a plain string \<open>s\<close> contributes
  exactly \<open>Question: s\<close> and a blank line; a User message with a sequence of parts
  contributes \<open>Question: \<close>, the values of the text parts joined with one space
  (the other parts are skipped) and a blank line; a User message without content
  contributes nothing.
\<close>

theorem user_message_block:
  "organize_historic_prompt
       (self\<lparr>history_prompt_messages := Some (pre @ UserPromptMessage (Some (StrContent s)) # post)\<rparr>) cur
     = organize_historic_prompt (self\<lparr>history_prompt_messages := Some pre\<rparr>) cur
       @ ''Question: '' @ s @ ''\<newline>\<newline>''
       @ organize_historic_prompt (self\<lparr>history_prompt_messages := Some post\<rparr>) cur
   \<and> organize_historic_prompt
       (self\<lparr>history_prompt_messages := Some (pre @ UserPromptMessage (Some (SeqContent ps)) # post)\<rparr>) cur
     = organize_historic_prompt (self\<lparr>history_prompt_messages := Some pre\<rparr>) cur
       @ ''Question: '' @ join '' '' (map data (filter is_TextPromptMessageContent ps)) @ ''\<newline>\<newline>''
       @ organize_historic_prompt (self\<lparr>history_prompt_messages := Some post\<rparr>) cur
   \<and> organize_historic_prompt
       (self\<lparr>history_prompt_messages := Some (pre @ UserPromptMessage None # post)\<rparr>) cur
     = organize_historic_prompt (self\<lparr>history_prompt_messages := Some pre\<rparr>) cur
       @ organize_historic_prompt (self\<lparr>history_prompt_messages := Some post\<rparr>) cur"
  by (simp add: historic_prompt_of)

text \<open>
  C8: in the history transcript a Tool message with a plain string \<open>s\<close> contributes
  exactly \<open>Tool Response: s\<close> and a blank line, one with a single text part of value
  \<open>v\<close> contributes \<open>Tool Response: v\<close> and a blank line, and one with a sequence
  of parts or without content contributes nothing.
\<close>

theorem tool_message_block:
  "organize_historic_prompt
       (self\<lparr>history_prompt_messages := Some (pre @ ToolPromptMessage (Some (StrContent s)) # post)\<rparr>) cur
     = organize_historic_prompt (self\<lparr>history_prompt_messages := Some pre\<rparr>) cur
       @ ''Tool Response: '' @ s @ ''\<newline>\<newline>''
       @ organize_historic_prompt (self\<lparr>history_prompt_messages := Some post\<rparr>) cur
   \<and> organize_historic_prompt
       (self\<lparr>history_prompt_messages :=
          Some (pre @ ToolPromptMessage (Some (PartContent (TextPromptMessageContent v))) # post)\<rparr>) cur
     = organize_historic_prompt (self\<lparr>history_prompt_messages := Some pre\<rparr>) cur
       @ ''Tool Response: '' @ v @ ''\<newline>\<newline>''
       @ organize_historic_prompt (self\<lparr>history_prompt_messages := Some post\<rparr>) cur
   \<and> organize_historic_prompt
       (self\<lparr>history_prompt_messages := Some (pre @ ToolPromptMessage (Some (SeqContent ps)) # post)\<rparr>) cur
     = organize_historic_prompt (self\<lparr>history_prompt_messages := Some pre\<rparr>) cur
       @ organize_historic_prompt (self\<lparr>history_prompt_messages := Some post\<rparr>) cur
   \<and> organize_historic_prompt
       (self\<lparr>history_prompt_messages := Some (pre @ ToolPromptMessage None # post)\<rparr>) cur
     = organize_historic_prompt (self\<lparr>history_prompt_messages := Some pre\<rparr>) cur
       @ organize_historic_prompt (self\<lparr>history_prompt_messages := Some post\<rparr>) cur"
  by (simp add: historic_prompt_of)

subsection \<open>The scratchpad rendering\<close>

text \<open>
  C1: the scratchpad rendering is the concatenation, in scratchpad order, of the
  renderings of the units, where a final unit gives exactly
  \<open>Final Answer: agent_response\<close> with no blank line after it, and any other unit
  gives \<open>Thought: thought\<close> and a blank line, then the Action block if and only if
  \<open>action_str\<close> is non-empty, then the Observation block if and only if
  \<open>observation\<close> is non-empty.
\<close>

theorem scratchpad_rendering_concat:
  "assistant_prompt_of (self\<lparr>agent_scratchpad := Some units\<rparr>) = concat (map unit_rendering units)
   \<and> assistant_prompt_of (self\<lparr>agent_scratchpad := None\<rparr>) = []"
  by (simp add: assistant_prompt_of_def foldl_scratchpad_step)

text \<open>
  C10: the rendering does not stop at a final unit. The units behind a final unit are
  rendered too, and their text follows \<open>Final Answer: agent_response\<close> directly,
  with nothing in between. The rendering is a total function into strings: it has
  no error result.
\<close>

theorem rendering_continues_after_final:
  assumes "is_final unit"
  shows "assistant_prompt_of (self\<lparr>agent_scratchpad := Some (pre @ unit # post)\<rparr>)
     = assistant_prompt_of (self\<lparr>agent_scratchpad := Some pre\<rparr>)
       @ ''Final Answer: '' @ py_str (agent_response unit)
       @ assistant_prompt_of (self\<lparr>agent_scratchpad := Some post\<rparr>)"
  using assms by (simp add: assistant_prompt_of_units unit_rendering_def)

theorem rendering_continues_after_final_witness:
  "is_final example_final_unit
   \<and> assistant_prompt_of
       (example_runner\<lparr>agent_scratchpad := Some ([] @ example_final_unit # [example_unit])\<rparr>)
     = ''Final Answer: 2+2 is 4Thought: I should use the calculator\<newline>\<newline>Action: calculator(2+2)\<newline>\<newline>Observation: 4\<newline>\<newline>''"
proof -
  have f: "is_final example_final_unit"
    by (simp add: example_final_unit_def)
  show ?thesis
    using rendering_continues_after_final
        [OF f, where self = example_runner and pre = "[]" and post = "[example_unit]"]
    by (simp add: f assistant_prompt_of_def scratchpad_step_def example_final_unit_def example_unit_def)
qed

subsection \<open>The instruction prompt\<close>

text \<open>
  C4: \<^verbatim>\<open>_organize_instruction_prompt\<close> fails with the error
  \<open>Agent configuration is not set\<close> exactly when the agent configuration is absent,
  and with the different error \<open>prompt entity is not set\<close> exactly when the agent
  configuration is present and its prompt entity is absent. Each failure can be
  triggered, and with both present the call succeeds.
\<close>

theorem instruction_prompt_errors:
  "(organize_instruction_prompt self = Inl (ValueError ''Agent configuration is not set''))
     = (agent (app_config self) = None)
   \<and> (organize_instruction_prompt self = Inl (ValueError ''prompt entity is not set''))
     = (\<exists>a. agent (app_config self) = Some a \<and> prompt a = None)
   \<and> ValueError ''Agent configuration is not set'' \<noteq> ValueError ''prompt entity is not set''
   \<and> (\<exists>out. organize_instruction_prompt self = Inr out)
     = (\<exists>a p. agent (app_config self) = Some a \<and> prompt a = Some p)
   \<and> (\<exists>r. organize_instruction_prompt r = Inl (ValueError ''Agent configuration is not set''))
   \<and> (\<exists>r. organize_instruction_prompt r = Inl (ValueError ''prompt entity is not set''))"
proof -
  have a: "(organize_instruction_prompt self = Inl (ValueError ''Agent configuration is not set''))
     = (agent (app_config self) = None)"
    by (simp add: organize_instruction_prompt_def split: option.splits)
  have b: "(organize_instruction_prompt self = Inl (ValueError ''prompt entity is not set''))
     = (\<exists>a. agent (app_config self) = Some a \<and> prompt a = None)"
    by (simp add: organize_instruction_prompt_def split: option.splits)
  have c: "(\<exists>out. organize_instruction_prompt self = Inr out)
     = (\<exists>a p. agent (app_config self) = Some a \<and> prompt a = Some p)"
    by (simp add: organize_instruction_prompt_def split: option.splits)
  have d: "organize_instruction_prompt (example_runner\<lparr>app_config := \<lparr>agent = None\<rparr>\<rparr>)
     = Inl (ValueError ''Agent configuration is not set'')"
    by (simp add: organize_instruction_prompt_def)
  have e: "organize_instruction_prompt
       (example_runner\<lparr>app_config := \<lparr>agent = Some \<lparr>prompt = None\<rparr>\<rparr>\<rparr>)
     = Inl (ValueError ''prompt entity is not set'')"
    by (simp add: organize_instruction_prompt_def)
  from a b c d e show ?thesis by blast
qed




text \<open>
  C5: in the rendered instruction prompt \<open>{{tools}}\<close> is replaced by the tool
  catalog as a JSON array with one object per tool, in catalog order, with the
  members name, description and parameters, and \<open>{{tool_names}}\<close> is replaced by
  the tool names joined with a comma and a space, in catalog order. For a template
  \<open>P0 {{instruction}} P1 {{tools}} P2 {{tool_names}} P3\<close> in which no token starts
  inside \<open>P0\<close>, \<open>P1\<close>, \<open>P2\<close>, the instruction text or the catalog text, both
  texts stand in the prompt at the places of their tokens.
\<close>

theorem tools_and_tool_names_rendered:
  assumes "agent (app_config self) = Some a" and "prompt a = Some p"
  shows "organize_instruction_prompt self =
       Inr (replace
             (replace
               (replace (first_prompt p) ''{{instruction}}'' (instruction self))
               ''{{tools}}'' (catalog_json (prompt_messages_tools self)))
             ''{{tool_names}}'' (join '', '' (map name (prompt_messages_tools self))))
     \<and> (first_prompt p
          = P0 @ ''{{instruction}}'' @ P1 @ ''{{tools}}'' @ P2 @ ''{{tool_names}}'' @ P3
        \<and> no_open P0 \<and> no_open P1 \<and> no_open P2
        \<and> no_open (instruction self) \<and> no_open (catalog_json (prompt_messages_tools self))
        \<longrightarrow> organize_instruction_prompt self =
          Inr (P0 @ instruction self @ P1 @ catalog_json (prompt_messages_tools self) @ P2
               @ join '', '' (map name (prompt_messages_tools self))
               @ replace
                   (replace
                     (replace P3 ''{{instruction}}'' (instruction self))
                     ''{{tools}}'' (catalog_json (prompt_messages_tools self)))
                   ''{{tool_names}}'' (join '', '' (map name (prompt_messages_tools self)))))"
proof (intro conjI impI)
  show eq: "organize_instruction_prompt self =
       Inr (replace
             (replace
               (replace (first_prompt p) ''{{instruction}}'' (instruction self))
               ''{{tools}}'' (catalog_json (prompt_messages_tools self)))
             ''{{tool_names}}'' (join '', '' (map name (prompt_messages_tools self))))"
    using assms by (rule instruction_prompt_configured)
  assume h: "first_prompt p
          = P0 @ ''{{instruction}}'' @ P1 @ ''{{tools}}'' @ P2 @ ''{{tool_names}}'' @ P3
        \<and> no_open P0 \<and> no_open P1 \<and> no_open P2
        \<and> no_open (instruction self) \<and> no_open (catalog_json (prompt_messages_tools self))"
  then have "no_open P0" "no_open P1" "no_open P2" "no_open (instruction self)"
    "no_open (catalog_json (prompt_messages_tools self))"
    by simp_all
  from three_passes_canonical [OF this] h
  show "organize_instruction_prompt self =
          Inr (P0 @ instruction self @ P1 @ catalog_json (prompt_messages_tools self) @ P2
               @ join '', '' (map name (prompt_messages_tools self))
               @ replace
                   (replace
                     (replace P3 ''{{instruction}}'' (instruction self))
                     ''{{tools}}'' (catalog_json (prompt_messages_tools self)))
                   ''{{tool_names}}'' (join '', '' (map name (prompt_messages_tools self))))"
    by (simp only: eq)
qed

theorem tools_and_tool_names_rendered_witness:
  \<open>catalog_json example_tools
     = ''[{"name": "calculator", "description": "math", "parameters": {"type": "object"}}, {"name": "weather", "description": "forecast", "parameters": {}}]''
   \<and> join '', '' (map name example_tools) = ''calculator, weather''
   \<and> organize_instruction_prompt example_runner
     = Inr (''Do: Help the user Tools: '' @ catalog_json example_tools
            @ '' Names: calculator, weather History: {{historic_messages}}Now: {{agent_scratchpad}}{{query}}'')\<close>
proof -
  let ?P3 = "'' History: {{historic_messages}}Now: {{agent_scratchpad}}{{query}}''"
  let ?p = "\<lparr>first_prompt = ''Do: '' @ ''{{instruction}}'' @ '' Tools: '' @ ''{{tools}}''
              @ '' Names: '' @ ''{{tool_names}}'' @ ?P3\<rparr>"
  have a: "agent (app_config example_runner) = Some \<lparr>prompt = Some ?p\<rparr>"
    by (simp add: example_runner_def)
  have p: "prompt \<lparr>prompt = Some ?p\<rparr> = Some ?p"
    by simp
  have c: \<open>catalog_json example_tools
     = ''[{"name": "calculator", "description": "math", "parameters": {"type": "object"}}, {"name": "weather", "description": "forecast", "parameters": {}}]''\<close>
    by (simp add: catalog_json_def example_tools_def tool_text_def quoted_def
        encode_basestring_ascii_def escape_char_def)
  have n: "join '', '' (map name example_tools) = ''calculator, weather''"
    by (simp add: example_tools_def)
  have t: "prompt_messages_tools example_runner = example_tools"
    and i: "instruction example_runner = ''Help the user''"
    by (simp_all add: example_runner_def)
  have o: "no_open (catalog_json example_tools)"
    by (simp add: c)
  have r: "replace (replace (replace ?P3 ''{{instruction}}'' ''Help the user'')
             ''{{tools}}'' (catalog_json example_tools)) ''{{tool_names}}'' ''calculator, weather''
      = ?P3"
    by simp
  have h: "first_prompt ?p
        = ''Do: '' @ ''{{instruction}}'' @ '' Tools: '' @ ''{{tools}}'' @ '' Names: ''
          @ ''{{tool_names}}'' @ ?P3
      \<and> no_open ''Do: '' \<and> no_open '' Tools: '' \<and> no_open '' Names: ''
      \<and> no_open (instruction example_runner)
      \<and> no_open (catalog_json (prompt_messages_tools example_runner))"
    by (simp add: t i o)
  from tools_and_tool_names_rendered [OF a p, THEN conjunct2, THEN mp, OF h]
  have "organize_instruction_prompt example_runner
     = Inr (''Do: Help the user Tools: '' @ catalog_json example_tools
            @ '' Names: calculator, weather History: {{historic_messages}}Now: {{agent_scratchpad}}{{query}}'')"
    by (simp add: t i n r)
  with c n show ?thesis
    by simp
qed

subsection \<open>The assembled prompt\<close>

text \<open>
  C2: when the instruction render succeeds, \<^verbatim>\<open>_organize_prompt_messages\<close> returns
  a list of exactly one User message, whose content is one text part; its text is
  the instruction prompt after replacing \<open>{{historic_messages}}\<close> by the history
  transcript, then \<open>{{agent_scratchpad}}\<close> by the scratchpad rendering, then
  \<open>{{query}}\<close> by \<open>Question: query\<close>.
\<close>

theorem prompt_messages_single_user_message:
  assumes "organize_instruction_prompt self = Inr system_prompt"
  shows "organize_prompt_messages self =
     Inr [UserPromptMessage (Some (SeqContent [TextPromptMessageContent
       (replace
         (replace
           (replace system_prompt ''{{historic_messages}}'' (organize_historic_prompt self None))
           ''{{agent_scratchpad}}'' (assistant_prompt_of self))
         ''{{query}}'' (''Question: '' @ query self))]))]"
  using assms by (simp add: organize_prompt_messages_def)

theorem prompt_messages_single_user_message_witness:
  \<open>organize_instruction_prompt example_runner
     = Inr ''Do: Help the user Tools: [{"name": "calculator", "description": "math", "parameters": {"type": "object"}}, {"name": "weather", "description": "forecast", "parameters": {}}] Names: calculator, weather History: {{historic_messages}}Now: {{agent_scratchpad}}{{query}}''
   \<and> organize_prompt_messages example_runner
     = Inr [UserPromptMessage (Some (SeqContent [TextPromptMessageContent
         ''Do: Help the user Tools: [{"name": "calculator", "description": "math", "parameters": {"type": "object"}}, {"name": "weather", "description": "forecast", "parameters": {}}] Names: calculator, weather History: Question: What's the weather like? And temperature too?\<newline>\<newline>Let me check.\<newline>\<newline>Tool Response: The weather is sunny.\<newline>\<newline>Now: Thought: I should use the calculator\<newline>\<newline>Action: calculator(2+2)\<newline>\<newline>Observation: 4\<newline>\<newline>Question: What is 2+2?'']))]\<close>
proof -
  have sp: \<open>organize_instruction_prompt example_runner
     = Inr ''Do: Help the user Tools: [{"name": "calculator", "description": "math", "parameters": {"type": "object"}}, {"name": "weather", "description": "forecast", "parameters": {}}] Names: calculator, weather History: {{historic_messages}}Now: {{agent_scratchpad}}{{query}}''\<close>
    by (simp add: organize_instruction_prompt_def example_runner_def example_tools_def
        jsonable_encoder_def tool_object_def encode_basestring_ascii_def escape_char_def)
  have h: "organize_historic_prompt example_runner None
     = ''Question: What's the weather like? And temperature too?\<newline>\<newline>Let me check.\<newline>\<newline>Tool Response: The weather is sunny.\<newline>\<newline>''"
    by (simp add: organize_historic_prompt_def example_runner_def example_history_def)
  have s: "assistant_prompt_of example_runner
     = ''Thought: I should use the calculator\<newline>\<newline>Action: calculator(2+2)\<newline>\<newline>Observation: 4\<newline>\<newline>''"
    by (simp add: assistant_prompt_of_def example_runner_def example_unit_def scratchpad_step_def)
  have q: "query example_runner = ''What is 2+2?''"
    by (simp add: example_runner_def)
  show ?thesis
    using prompt_messages_single_user_message [OF sp]
    by (simp add: sp h s q)
qed



end
